theory Spec2Isabelle
  imports Main "HOL-Library.AList" "HOL-Library.Multiset"
begin

section \<open>Data model of the reception server\<close>

text \<open>
  The server (the Socket.IO and Express program with \<open>connectedUsers\<close> and
  \<open>waitingCalls\<close>) keeps two in-memory maps keyed by socket id, three demo-mode maps,
  and three MongoDB collections. Socket ids are the opaque, non-empty strings that
  Socket.IO generates; times are milliseconds since the epoch, as \<open>Date\<close> has them.
  A handler runs without interruption from one \<open>await\<close> to the next, and other
  handlers may run while it waits. For \<open>accept-call\<close> and \<open>disconnect\<close> the pieces
  between the waits are definitions of their own, a database operation taking effect
  in the piece that issues it, and the handler is their composition with nothing in
  between; the other handlers are given as such uninterrupted runs directly. All clock
  readings of one run are taken as one instant.
\<close>

type_synonym sid = string
type_synonym time = int

text \<open>
  Identifiers. \<open>ObjectId n\<close> is a MongoDB ObjectId, and as a value sent by a client
  the string \<open>toString()\<close> gives for it. \<open>Respelled n\<close> is a value sent by a client
  that Mongoose casts to that ObjectId without being that string, such as its hex digits
  in upper case: a query finds the document, a strict comparison with \<open>toString()\<close>
  fails. \<open>DemoUser\<close> and \<open>DemoCall\<close> are the demo-mode strings \<open>demo_<ms>\<close> and
  \<open>call_<ms>\<close>, which do not cast. Identifiers stored in documents are never respelled.
\<close>

datatype ident = ObjectId nat | Respelled nat | DemoUser int | DemoCall int

fun is_oid :: "ident \<Rightarrow> bool" where
  "is_oid (ObjectId n) = True"
| "is_oid _ = False"

fun cast_oid :: "ident \<Rightarrow> nat option" where
  "cast_oid (ObjectId n) = Some n"
| "cast_oid (Respelled n) = Some n"
| "cast_oid (DemoUser t) = None"
| "cast_oid (DemoCall t) = None"

datatype status = Waiting | InProgress | Completed | Rejected

text \<open>
  The User schema is not among the sources; the record has the fields the server
  reads and writes (\<open>_id\<close>, \<open>name\<close>, \<open>email\<close>, \<open>role\<close>, \<open>department\<close>,
  \<open>isAvailable\<close>, \<open>lastActive\<close>). Passwords are left out: the result of
  \<open>bcrypt.compare\<close> is an input of the login handler.
\<close>

record user =
  uid :: ident
  uname :: string
  email :: string
  role :: string
  department :: "string option"
  isAvailable :: bool
  lastActive :: "time option"

text \<open>The Call schema of \<open>models/Call.js\<close>; an absent path is \<open>None\<close>.\<close>

record call =
  cid :: nat
  clientId :: ident
  staffId :: "ident option"
  status :: status
  callType :: string
  purpose :: string
  description :: "string option"
  startTime :: "time option"
  endTime :: "time option"
  duration :: "int option"
  decision :: "string option"
  notes_c :: "string option"
  createdAt :: time
  updatedAt :: time

text \<open>The plain object that demo mode stores in \<open>demoCalls\<close>.\<close>

record demo_call =
  dc_id :: ident
  dc_clientId :: ident
  dc_purpose :: "string option"
  dc_status :: status
  dc_createdAt :: time

text \<open>
  An error thrown by the database layer, named by the path or collection it concerns,
  or the TypeError of taking apart a payload that is not there.
\<close>

datatype failure = ValidationFailed string | DuplicateKey string | CastFailed string | NoPayload

text \<open>
  Messages the server emits. \<open>ErrorEvent m e\<close> is the \<open>error\<close> event whose message is
  \<open>m\<close>, followed by the message of the thrown error \<open>e\<close> where the source appends it.
  The signalling payload is an uninterpreted value of type \<open>'p\<close>.
\<close>

datatype 'p msg =
    LoginError string
  | LoginSuccess ident string "string option"
  | WaitingCallsCount nat
  | NewCallRequest ident string "string option" time
  | ConversationStarted sid ident string "string option"
  | CallAccepted string "string option"
  | CallStarted ident ident
  | Offer 'p sid
  | Answer 'p sid
  | IceCandidate 'p sid
  | CallCompleted "string option" "string option"
  | DecisionSaved ident "string option"
  | AiResponse string
  | ErrorEvent string "failure option"

text \<open>
  The state: the connected sockets (kept by Socket.IO), the five maps of the server in
  insertion order, and the collections. Of a conversation only its \<open>sessionId\<close> and
  \<open>userId\<close> are kept; its messages belong to the chat proxy.
\<close>

record state =
  sockets :: "sid list"
  connectedUsers :: "(sid \<times> user) list"
  waitingCalls :: "(sid \<times> call) list"
  demoUsers :: "(ident \<times> user) list"
  demoConversations :: "(sid \<times> ident) list"
  demoCalls :: "(sid \<times> demo_call) list"
  users :: "user list"
  calls :: "call list"
  conversations :: "(sid \<times> ident) list"

type_synonym 'p out = "(sid \<times> 'p msg) list"

section \<open>Emitting\<close>

text \<open>
  \<open>io.emit\<close> reaches every connected socket; \<open>io.to(t).emit\<close> reaches the room
  named \<open>t\<close>, which holds the socket with that id and nothing else (the server never
  joins a socket to another room); \<open>socket.emit\<close> answers the sender.
\<close>

definition io_emit :: "state \<Rightarrow> 'p msg \<Rightarrow> 'p out" where
  "io_emit s m = map (\<lambda>k. (k, m)) (sockets s)"

definition io_to :: "state \<Rightarrow> sid \<Rightarrow> 'p msg \<Rightarrow> 'p out" where
  "io_to s t m = (if t \<in> set (sockets s) then [(t, m)] else [])"

definition socket_emit :: "sid \<Rightarrow> 'p msg \<Rightarrow> 'p out" where
  "socket_emit k m = [(k, m)]"

section \<open>The Call collection\<close>

text \<open>
  \<open>Call.findById\<close> casts its argument: a value that does not cast makes the query
  throw, any spelling of an ObjectId finds the document with that \<open>_id\<close>.
\<close>

definition findById :: "ident \<Rightarrow> call list \<Rightarrow> failure + call option" where
  "findById i cs =
     (case cast_oid i of
        Some n \<Rightarrow> Inr (find (\<lambda>c. cid c = n) cs)
      | None \<Rightarrow> Inl (CastFailed ''_id''))"

text \<open>
  \<open>save()\<close> of a stored document writes its modified paths to the document with the
  same \<open>_id\<close>; \<open>f\<close> is the assignment of those paths.
\<close>

definition update_doc :: "nat \<Rightarrow> (call \<Rightarrow> call) \<Rightarrow> call list \<Rightarrow> call list" where
  "update_doc n f cs = map (\<lambda>d. if cid d = n then f d else d) cs"

text \<open>\<open>save()\<close> of a new document: \<open>_id\<close> is unique in a collection.\<close>

definition insert_call :: "call \<Rightarrow> call list \<Rightarrow> failure + call list" where
  "insert_call c cs =
     (if cid c \<in> cid ` set cs then Inl (DuplicateKey ''_id'') else Inr (cs @ [c]))"

text \<open>
  \<open>new Call({clientId, purpose, status: 'waiting'})\<close> with the schema's defaults, and the
  validation \<open>save()\<close> runs first: \<open>clientId\<close> is a required ObjectId, \<open>purpose\<close> a
  required string (the empty string does not satisfy \<open>required\<close>).
\<close>

definition new_call :: "nat \<Rightarrow> time \<Rightarrow> ident \<Rightarrow> string option \<Rightarrow> failure + call" where
  "new_call n now client p =
     (if \<not> is_oid client then Inl (CastFailed ''clientId'')
      else case p of
        None \<Rightarrow> Inl (ValidationFailed ''purpose'')
      | Some txt \<Rightarrow>
          if txt = [] then Inl (ValidationFailed ''purpose'')
          else Inr \<lparr>cid = n, clientId = client, staffId = None, status = Waiting,
                    callType = ''video'', purpose = txt, description = None,
                    startTime = None, endTime = None, duration = None,
                    decision = Some ''pending'', notes_c = None,
                    createdAt = now, updatedAt = now\<rparr>)"

text \<open>The \<open>decision\<close> path: an enum, not required.\<close>

definition decision_ok :: "string option \<Rightarrow> bool" where
  "decision_ok d =
     (case d of None \<Rightarrow> True | Some v \<Rightarrow> v \<in> set [''accepted'', ''rejected'', ''pending''])"

section \<open>Handlers\<close>

subsection \<open>staff-login\<close>

definition staff_login :: "time \<Rightarrow> sid \<Rightarrow> string \<Rightarrow> bool \<Rightarrow> state \<Rightarrow> state \<times> 'p out" where
  "staff_login now k em pw_ok s =
     (case find (\<lambda>u. email u = em \<and> role u = ''staff'') (users s) of
        None \<Rightarrow> (s, socket_emit k (LoginError ''Invalid credentials''))
      | Some u0 \<Rightarrow>
          if \<not> pw_ok then (s, socket_emit k (LoginError ''Invalid credentials''))
          else
            let u = u0\<lparr>isAvailable := True, lastActive := Some now\<rparr>;
                s1 = s\<lparr>users := map (\<lambda>x. if uid x = uid u then u else x) (users s),
                       connectedUsers := AList.update k u (connectedUsers s)\<rparr>
            in (s1, socket_emit k (LoginSuccess (uid u) (uname u) (department u))
                    @ socket_emit k
                        (WaitingCallsCount (length (filter (\<lambda>c. status c = Waiting) (calls s1))))))"

text \<open>
  The handler with its payload \<open>{email, password}\<close>: an event sent without payload
  fails in the destructuring, inside the \<open>try\<close> block.
\<close>

definition on_staff_login :: "time \<Rightarrow> sid \<Rightarrow> string option \<Rightarrow> bool \<Rightarrow> state \<Rightarrow> state \<times> 'p out" where
  "on_staff_login now k data pw_ok s =
     (case data of
        None \<Rightarrow> (s, socket_emit k (LoginError ''Login failed''))
      | Some em \<Rightarrow> staff_login now k em pw_ok s)"

subsection \<open>start-conversation\<close>

text \<open>
  The payload \<open>{name, email, purpose}\<close>, and what the handler reads from outside the
  state: the clock, \<open>mongoose.connection.readyState === 1\<close>, the ObjectIds generated for
  a new user and the new call, and whether a new user document passes the validation of
  the User schema.
\<close>

record start_data =
  d_name :: string
  d_email :: string
  d_purpose :: "string option"

record env =
  e_now :: time
  e_ready :: bool
  e_user_oid :: nat
  e_call_oid :: nat
  e_user_valid :: bool

definition find_or_create_user :: "env \<Rightarrow> start_data \<Rightarrow> user list \<Rightarrow> failure + (user \<times> user list)" where
  "find_or_create_user e d us =
     (case find (\<lambda>u. email u = d_email d) us of
        Some u \<Rightarrow> Inr (u, us)
      | None \<Rightarrow>
          let u = \<lparr>uid = ObjectId (e_user_oid e), uname = d_name d, email = d_email d,
                   role = ''client'', department = None, isAvailable = False,
                   lastActive = None\<rparr>
          in if \<not> e_user_valid e then Inl (ValidationFailed ''User'')
             else if ObjectId (e_user_oid e) \<in> uid ` set us then Inl (DuplicateKey ''_id'')
             else Inr (u, us @ [u]))"

definition start_failed :: "sid \<Rightarrow> failure \<Rightarrow> 'p out" where
  "start_failed k err = socket_emit k (ErrorEvent ''Failed to start conversation: '' (Some err))"

text \<open>The branch taken when the database is connected.\<close>

definition start_mongo :: "env \<Rightarrow> sid \<Rightarrow> start_data \<Rightarrow> state \<Rightarrow> state \<times> 'p out" where
  "start_mongo e k d s =
     (case find_or_create_user e d (users s) of
        Inl err \<Rightarrow> (s, start_failed k err)
      | Inr (u, us) \<Rightarrow>
          let s1 = s\<lparr>users := us\<rparr> in
          if \<not> is_oid (uid u) then (s1, start_failed k (CastFailed ''userId''))
          else if k \<in> fst ` set (conversations s1)
          then (s1, start_failed k (DuplicateKey ''sessionId''))
          else
            let s2 = s1\<lparr>conversations := conversations s1 @ [(k, uid u)]\<rparr> in
            (case new_call (e_call_oid e) (e_now e) (uid u) (d_purpose d) of
               Inl err \<Rightarrow> (s2, start_failed k err)
             | Inr c \<Rightarrow>
                 (case insert_call c (calls s2) of
                    Inl err \<Rightarrow> (s2, start_failed k err)
                  | Inr cs \<Rightarrow>
                      let s3 = s2\<lparr>calls := cs,
                                  waitingCalls := AList.update k c (waitingCalls s2),
                                  connectedUsers := AList.update k u (connectedUsers s2)\<rparr>
                      in (s3,
                          io_emit s3 (NewCallRequest (ObjectId (cid c)) (d_name d)
                                        (d_purpose d) (e_now e))
                          @ socket_emit k (ConversationStarted k (ObjectId (cid c)) (d_name d)
                                             (d_purpose d))))))"

text \<open>The demo-mode branch: plain objects in the three demo maps, nothing validated.\<close>

definition start_demo :: "env \<Rightarrow> sid \<Rightarrow> start_data \<Rightarrow> state \<Rightarrow> state \<times> 'p out" where
  "start_demo e k d s =
     (let userId = DemoUser (e_now e);
          demoUser = \<lparr>uid = userId, uname = d_name d, email = d_email d, role = ''client'',
                      department = None, isAvailable = False, lastActive = None\<rparr>;
          demoCall = \<lparr>dc_id = DemoCall (e_now e), dc_clientId = userId,
                      dc_purpose = d_purpose d, dc_status = Waiting,
                      dc_createdAt = e_now e\<rparr>;
          s1 = s\<lparr>demoUsers := AList.update userId demoUser (demoUsers s),
                 demoConversations := AList.update k userId (demoConversations s),
                 demoCalls := AList.update k demoCall (demoCalls s),
                 connectedUsers := AList.update k demoUser (connectedUsers s)\<rparr>
      in (s1,
          io_emit s1 (NewCallRequest (dc_id demoCall) (d_name d) (d_purpose d) (e_now e))
          @ socket_emit k (ConversationStarted k (dc_id demoCall) (d_name d) (d_purpose d))))"

definition start_conversation :: "env \<Rightarrow> sid \<Rightarrow> start_data \<Rightarrow> state \<Rightarrow> state \<times> 'p out" where
  "start_conversation e k d s =
     (if e_ready e then start_mongo e k d s else start_demo e k d s)"

text \<open>
  The handler with its payload: the destructuring comes first, inside the \<open>try\<close>
  block, so that an event sent without payload is answered by the error event.
\<close>

definition on_start_conversation ::
  "env \<Rightarrow> sid \<Rightarrow> start_data option \<Rightarrow> state \<Rightarrow> state \<times> 'p out" where
  "on_start_conversation e k data s =
     (case data of
        None \<Rightarrow> (s, start_failed k NoPayload)
      | Some d \<Rightarrow> start_conversation e k d s)"

subsection \<open>accept-call\<close>

text \<open>
  The handler waits twice, for \<open>Call.findById\<close> and for \<open>call.save()\<close>.
  \<open>accept_call_query\<close> is the handler from the staff guard to the document the query
  gives it. \<open>accept_call_save\<close> goes on from there: it tests the status of that
  document, assigns, and saves; the assigned paths differ from what a waiting document
  holds, so \<open>save()\<close> writes them. \<open>accept_call_finish\<close> is the rest, after the
  save: the search of \<open>waitingCalls\<close> by strict comparison of \<open>toString()\<close> with the
  value the client sent, and the two emits. The last two run in the state of the moment
  at which the handler goes on.
\<close>

definition accept_failed :: "sid \<Rightarrow> 'p out" where
  "accept_failed k = socket_emit k (ErrorEvent ''Failed to accept call'' None)"

definition accept_call_query :: "sid \<Rightarrow> ident \<Rightarrow> state \<Rightarrow> 'p out \<times> (user \<times> call) option" where
  "accept_call_query k callId s =
     (case map_of (connectedUsers s) k of
        None \<Rightarrow> ([], None)
      | Some staffUser \<Rightarrow>
          if role staffUser \<noteq> ''staff'' then ([], None)
          else
            (case findById callId (calls s) of
               Inl err \<Rightarrow> (accept_failed k, None)
             | Inr None \<Rightarrow> ([], None)
             | Inr (Some c) \<Rightarrow> ([], Some (staffUser, c))))"

definition accept_call_save :: "time \<Rightarrow> sid \<Rightarrow> user \<Rightarrow> call \<Rightarrow> state \<Rightarrow> 'p out + state" where
  "accept_call_save now k staffUser c s =
     (if status c \<noteq> Waiting then Inl []
      else if \<not> is_oid (uid staffUser) then Inl (accept_failed k)
      else Inr (s\<lparr>calls := update_doc (cid c)
                    (\<lambda>d. d\<lparr>staffId := Some (uid staffUser), status := InProgress,
                           startTime := Some now, updatedAt := now\<rparr>)
                    (calls s)\<rparr>))"

definition accept_call_finish :: "sid \<Rightarrow> ident \<Rightarrow> user \<Rightarrow> call \<Rightarrow> state \<Rightarrow> state \<times> 'p out" where
  "accept_call_finish k callId staffUser c s =
     (case find (\<lambda>(i, w). ObjectId (cid w) = callId) (waitingCalls s) of
        Some (clientSocketId, w) \<Rightarrow>
          (s\<lparr>waitingCalls := AList.delete clientSocketId (waitingCalls s)\<rparr>,
           io_to s clientSocketId (CallAccepted (uname staffUser) (department staffUser))
           @ socket_emit k (CallStarted callId (clientId c)))
      | None \<Rightarrow> (s, socket_emit k (CallStarted callId (clientId c))))"

text \<open>
  The handler from the moment the query has answered, and the handler for a payload
  with a \<open>callId\<close>, both when nothing runs while they wait.
\<close>

definition accept_call_resume ::
  "time \<Rightarrow> sid \<Rightarrow> ident \<Rightarrow> user \<Rightarrow> call \<Rightarrow> state \<Rightarrow> state \<times> 'p out" where
  "accept_call_resume now k callId staffUser c s =
     (case accept_call_save now k staffUser c s of
        Inl out \<Rightarrow> (s, out)
      | Inr s1 \<Rightarrow> accept_call_finish k callId staffUser c s1)"

definition accept_call :: "time \<Rightarrow> sid \<Rightarrow> ident \<Rightarrow> state \<Rightarrow> state \<times> 'p out" where
  "accept_call now k callId s =
     (case accept_call_query k callId s of
        (out, None) \<Rightarrow> (s, out)
      | (out, Some (staffUser, c)) \<Rightarrow> accept_call_resume now k callId staffUser c s)"

text \<open>
  The whole handler. \<open>const { callId } = data\<close> stands inside the \<open>try\<close> block and
  before the staff guard: without payload it throws, and the \<open>catch\<close> block emits the
  error event whoever the sender is. With a payload that has no \<open>callId\<close> the query
  finds no document (\<open>findById(undefined)\<close> asks for the \<open>_id\<close> null), and the
  handler returns.
\<close>

record accept_data =
  a_callId :: "ident option"

definition on_accept_call :: "time \<Rightarrow> sid \<Rightarrow> accept_data option \<Rightarrow> state \<Rightarrow> state \<times> 'p out" where
  "on_accept_call now k data s =
     (case data of
        None \<Rightarrow> (s, accept_failed k)
      | Some d \<Rightarrow>
          (case a_callId d of
             None \<Rightarrow> (s, [])
           | Some callId \<Rightarrow> accept_call now k callId s))"

subsection \<open>offer, answer, ice-candidate\<close>

definition on_offer :: "sid \<Rightarrow> sid \<Rightarrow> 'p \<Rightarrow> state \<Rightarrow> state \<times> 'p out" where
  "on_offer k target p s = (s, io_to s target (Offer p k))"

definition on_answer :: "sid \<Rightarrow> sid \<Rightarrow> 'p \<Rightarrow> state \<Rightarrow> state \<times> 'p out" where
  "on_answer k target p s = (s, io_to s target (Answer p k))"

definition on_ice_candidate :: "sid \<Rightarrow> sid \<Rightarrow> 'p \<Rightarrow> state \<Rightarrow> state \<times> 'p out" where
  "on_ice_candidate k target p s = (s, io_to s target (IceCandidate p k))"

datatype kind = KOffer | KAnswer | KIceCandidate

fun signal_msg :: "kind \<Rightarrow> 'p \<Rightarrow> sid \<Rightarrow> 'p msg" where
  "signal_msg KOffer p k = Offer p k"
| "signal_msg KAnswer p k = Answer p k"
| "signal_msg KIceCandidate p k = IceCandidate p k"

fun on_signal :: "kind \<Rightarrow> sid \<Rightarrow> sid \<Rightarrow> 'p \<Rightarrow> state \<Rightarrow> state \<times> 'p out" where
  "on_signal KOffer k target p s = on_offer k target p s"
| "on_signal KAnswer k target p s = on_answer k target p s"
| "on_signal KIceCandidate k target p s = on_ice_candidate k target p s"

subsection \<open>call-decision\<close>

definition decision_failed :: "sid \<Rightarrow> 'p out" where
  "decision_failed k = socket_emit k (ErrorEvent ''Failed to save decision'' None)"

text \<open>
  \<open>call.staffId.toString()\<close> throws when the call has no staff; a call without
  \<open>startTime\<close> gets the duration \<open>NaN\<close>, which does not cast to a number, and a
  decision outside the enum does not validate, so \<open>save()\<close> throws.
\<close>

definition call_decision ::
  "time \<Rightarrow> sid \<Rightarrow> ident \<Rightarrow> string option \<Rightarrow> string option \<Rightarrow> state \<Rightarrow> state \<times> 'p out" where
  "call_decision now k callId dec nts s =
     (case map_of (connectedUsers s) k of
        None \<Rightarrow> (s, [])
      | Some staffUser \<Rightarrow>
          if role staffUser \<noteq> ''staff'' then (s, [])
          else
            (case findById callId (calls s) of
               Inl err \<Rightarrow> (s, decision_failed k)
             | Inr None \<Rightarrow> (s, [])
             | Inr (Some c) \<Rightarrow>
                 (case staffId c of
                    None \<Rightarrow> (s, decision_failed k)
                  | Some owner \<Rightarrow>
                      if owner \<noteq> uid staffUser then (s, [])
                      else
                        (case startTime c of
                           None \<Rightarrow> (s, decision_failed k)
                         | Some st \<Rightarrow>
                             if \<not> decision_ok dec then (s, decision_failed k)
                             else
                               let s1 = s\<lparr>calls := update_doc (cid c)
                                             (\<lambda>d. d\<lparr>status := Completed, endTime := Some now,
                                                    decision := dec, notes_c := nts,
                                                    duration := Some ((now - st) div 1000),
                                                    updatedAt := now\<rparr>)
                                             (calls s)\<rparr>
                               in (s1,
                                   (case find (\<lambda>(i, u). uid u = clientId c) (connectedUsers s1) of
                                      Some (clientSocketId, u) \<Rightarrow>
                                        io_to s1 clientSocketId (CallCompleted dec nts)
                                    | None \<Rightarrow> [])
                                   @ socket_emit k (DecisionSaved callId dec))))))"

text \<open>
  The whole handler, with its payload \<open>{callId, decision, notes}\<close>; the destructuring
  stands inside the \<open>try\<close> block, before the staff guard.
\<close>

record decision_data =
  c_callId :: "ident option"
  c_decision :: "string option"
  c_notes :: "string option"

definition on_call_decision :: "time \<Rightarrow> sid \<Rightarrow> decision_data option \<Rightarrow> state \<Rightarrow> state \<times> 'p out" where
  "on_call_decision now k data s =
     (case data of
        None \<Rightarrow> (s, decision_failed k)
      | Some d \<Rightarrow>
          (case c_callId d of
             None \<Rightarrow> (s, [])
           | Some callId \<Rightarrow> call_decision now k callId (c_decision d) (c_notes d) s))"

subsection \<open>disconnect\<close>

text \<open>
  \<open>save()\<close> writes a path only if the assignment changed what the handler's own
  document held. The user document of \<open>connectedUsers\<close> may be older than the stored
  one: \<open>written mem new db\<close> is the stored value after \<open>save()\<close>, when the document in
  memory held \<open>mem\<close>, \<open>new\<close> was assigned, and the collection holds \<open>db\<close>. The
  call document of a \<open>waitingCalls\<close> entry is the one start-conversation created, in
  waiting and untouched since, so the assignment of its status is always a change.
\<close>

definition written :: "'a \<Rightarrow> 'a \<Rightarrow> 'a \<Rightarrow> 'a" where
  "written mem new db = (if mem = new then db else new)"

text \<open>
  The handler waits for \<open>user.save()\<close>, which only a staff user's disconnect calls, and
  for \<open>call.save()\<close>. \<open>disconnect_user\<close> is the handler up to the first save and
  gives the user it found; \<open>disconnect_call\<close> goes on to the second save and tells
  whether there was an entry; \<open>disconnect_finish\<close> is the deletion of the entry after
  that save.
\<close>

definition disconnect_user :: "time \<Rightarrow> sid \<Rightarrow> state \<Rightarrow> state \<times> user option" where
  "disconnect_user now k s =
     (case map_of (connectedUsers s) k of
        Some u \<Rightarrow>
          (if role u = ''staff''
           then s\<lparr>users := map (\<lambda>x. if uid x = uid u
                                     then x\<lparr>isAvailable := written (isAvailable u) False (isAvailable x),
                                            lastActive := written (lastActive u) (Some now) (lastActive x)\<rparr>
                                     else x) (users s)\<rparr>
           else s, Some u)
      | None \<Rightarrow> (s, None))"

definition disconnect_call :: "time \<Rightarrow> sid \<Rightarrow> user option \<Rightarrow> state \<Rightarrow> state \<times> bool" where
  "disconnect_call now k found s =
     (let s1 = (case found of
                  Some u \<Rightarrow> s\<lparr>connectedUsers := AList.delete k (connectedUsers s)\<rparr>
                | None \<Rightarrow> s)
      in case map_of (waitingCalls s1) k of
           Some c \<Rightarrow>
             (s1\<lparr>calls := update_doc (cid c)
                            (\<lambda>d. d\<lparr>status := Rejected, updatedAt := now\<rparr>) (calls s1)\<rparr>, True)
         | None \<Rightarrow> (s1, False))"

definition disconnect_finish :: "sid \<Rightarrow> state \<Rightarrow> state" where
  "disconnect_finish k s = s\<lparr>waitingCalls := AList.delete k (waitingCalls s)\<rparr>"

text \<open>The handler when nothing runs while it waits.\<close>

definition disconnect :: "time \<Rightarrow> sid \<Rightarrow> state \<Rightarrow> state \<times> 'p out" where
  "disconnect now k s =
     (case disconnect_user now k s of
        (s1, found) \<Rightarrow>
          (case disconnect_call now k found s1 of
             (s2, True) \<Rightarrow> (disconnect_finish k s2, [])
           | (s2, False) \<Rightarrow> (s2, [])))"

subsection \<open>chat-message\<close>

text \<open>
  The handler stores the message and the reply in the conversation and answers with the
  reply of the chat proxy. The messages of a conversation are not part of the state; the
  reply is an input, \<open>None\<close> when one of the database operations throws.
\<close>

definition chat_message :: "sid \<Rightarrow> string option \<Rightarrow> state \<Rightarrow> state \<times> 'p out" where
  "chat_message k reply s =
     (case map_of (connectedUsers s) k of
        None \<Rightarrow> (s, [])
      | Some u \<Rightarrow>
          (case reply of
             Some r \<Rightarrow> (s, socket_emit k (AiResponse r))
           | None \<Rightarrow> (s, socket_emit k (ErrorEvent ''Failed to process message'' None))))"

text \<open>
  The whole handler: the payload \<open>{sessionId, message}\<close> is taken apart inside the
  \<open>try\<close> block, before the registry is asked.
\<close>

definition on_chat_message :: "sid \<Rightarrow> bool \<Rightarrow> string option \<Rightarrow> state \<Rightarrow> state \<times> 'p out" where
  "on_chat_message k has_payload reply s =
     (if has_payload then chat_message k reply s
      else (s, socket_emit k (ErrorEvent ''Failed to process message'' None)))"

subsection \<open>POST /api/auth/register\<close>

text \<open>
  The route as far as the state goes: a new user document, unless the email is taken
  (status 400) or \<open>save()\<close> throws (status 500). The generated ObjectId and the
  outcome of the User schema's validation are inputs; password hash and token are left
  out.
\<close>

record register_data =
  r_name :: string
  r_email :: string
  r_role :: string
  r_department :: "string option"

definition api_auth_register :: "nat \<Rightarrow> bool \<Rightarrow> register_data \<Rightarrow> state \<Rightarrow> state \<times> nat" where
  "api_auth_register oid valid d s =
     (case find (\<lambda>u. email u = r_email d) (users s) of
        Some u \<Rightarrow> (s, 400)
      | None \<Rightarrow>
          if \<not> valid \<or> ObjectId oid \<in> uid ` set (users s) then (s, 500)
          else (s\<lparr>users := users s @
                   [\<lparr>uid = ObjectId oid, uname = r_name d, email = r_email d,
                     role = r_role d, department = r_department d, isAvailable = False,
                     lastActive = None\<rparr>]\<rparr>, 200))"

subsection \<open>GET /api/calls/waiting\<close>



datatype response = Failed nat string | Json "(call \<times> user option) list"


section \<open>Runs of the server\<close>

text \<open>
  The events that change the state or emit: those of the sockets and the registration
  request. The payload of an event is \<open>None\<close> when the client sent none, or null; a signalling
  event always has one (without it the handler throws outside any \<open>try\<close> block). An
  event of a socket that is not connected does not occur; a connecting socket has a new
  id. On \<open>disconnect\<close> the socket has left before the handler runs. In a run every
  handler is finished before the next event is taken.
\<close>

datatype 'p event =
    Connect sid
  | StaffLogin time sid "string option" bool
  | StartConversation env sid "start_data option"
  | AcceptCall time sid "accept_data option"
  | Signal kind sid sid 'p
  | CallDecision time sid "decision_data option"
  | ChatMessage sid bool "string option"
  | Disconnect time sid
  | Register nat bool register_data

fun sender :: "'p event \<Rightarrow> sid option" where
  "sender (Connect k) = Some k"
| "sender (StaffLogin t k em ok) = Some k"
| "sender (StartConversation e k d) = Some k"
| "sender (AcceptCall t k i) = Some k"
| "sender (Signal kd k target p) = Some k"
| "sender (CallDecision t k d) = Some k"
| "sender (ChatMessage k has_payload reply) = Some k"
| "sender (Disconnect t k) = Some k"
| "sender (Register oid valid d) = None"

fun handle :: "'p event \<Rightarrow> state \<Rightarrow> state \<times> 'p out" where
  "handle (Connect k) s = (s, [])"
| "handle (StaffLogin t k em ok) s = on_staff_login t k em ok s"
| "handle (StartConversation e k d) s = on_start_conversation e k d s"
| "handle (AcceptCall t k d) s = on_accept_call t k d s"
| "handle (Signal kd k target p) s = on_signal kd k target p s"
| "handle (CallDecision t k d) s = on_call_decision t k d s"
| "handle (ChatMessage k has_payload reply) s = on_chat_message k has_payload reply s"
| "handle (Disconnect t k) s = disconnect t k (s\<lparr>sockets := removeAll k (sockets s)\<rparr>)"
| "handle (Register oid valid d) s = (fst (api_auth_register oid valid d s), [])"

definition step :: "'p event \<Rightarrow> state \<Rightarrow> state \<times> 'p out" where
  "step ev s =
     (case ev of
        Connect k \<Rightarrow>
          (if k \<in> set (sockets s) then (s, []) else (s\<lparr>sockets := sockets s @ [k]\<rparr>, []))
      | _ \<Rightarrow>
          (case sender ev of
             None \<Rightarrow> handle ev s
           | Some k \<Rightarrow> (if k \<in> set (sockets s) then handle ev s else (s, []))))"

fun run :: "'p event list \<Rightarrow> state \<Rightarrow> state" where
  "run [] s = s"
| "run (ev # evs) s = run evs (fst (step ev s))"

text \<open>The server after start: empty maps over whatever the database holds.\<close>

definition boot :: "user list \<Rightarrow> call list \<Rightarrow> (sid \<times> ident) list \<Rightarrow> state" where
  "boot us cs cvs =
     \<lparr>sockets = [], connectedUsers = [], waitingCalls = [], demoUsers = [],
      demoConversations = [], demoCalls = [], users = us, calls = cs, conversations = cvs\<rparr>"

section \<open>Notions used in the properties\<close>

text \<open>The guard of \<open>accept-call\<close> and \<open>call-decision\<close>: the sender is registered with role staff.\<close>

definition registered_staff :: "state \<Rightarrow> sid \<Rightarrow> bool" where
  "registered_staff s k =
     (case map_of (connectedUsers s) k of None \<Rightarrow> False | Some u \<Rightarrow> role u = ''staff'')"

text \<open>The sender is registered as the staff user whose \<open>_id\<close> the call holds in \<open>staffId\<close>.\<close>

definition bound_staff :: "state \<Rightarrow> sid \<Rightarrow> call \<Rightarrow> bool" where
  "bound_staff s k c =
     (case map_of (connectedUsers s) k of
        None \<Rightarrow> False
      | Some u \<Rightarrow> role u = ''staff'' \<and> staffId c = Some (uid u))"

text \<open>The stored call with a given \<open>_id\<close>.\<close>

definition stored :: "state \<Rightarrow> nat \<Rightarrow> call option" where
  "stored s n = find (\<lambda>c. cid c = n) (calls s)"

text \<open>
  Several \<open>accept-call\<close> events, each with the time, the sender and the \<open>callId\<close> it
  carries, handled one after the other in the order of the list, every handler finished
  before the next starts; the result keeps what each handler run emitted.
\<close>

fun accept_all :: "(time \<times> sid \<times> ident) list \<Rightarrow> state \<Rightarrow> state \<times> 'p out list" where
  "accept_all [] s = (s, [])"
| "accept_all ((t, k, callId) # reqs) s =
     (case accept_call t k callId s of
        (s1, out1) \<Rightarrow> (case accept_all reqs s1 of (s2, outs) \<Rightarrow> (s2, out1 # outs)))"

text \<open>The sign of a successful acceptance: \<open>call-started\<close> for that call, sent to the sender.\<close>

definition call_started :: "sid \<Rightarrow> ident \<Rightarrow> 'p out \<Rightarrow> bool" where
  "call_started k callId out =
     list_ex (\<lambda>(k', m). k' = k \<and> (case m of CallStarted i cl \<Rightarrow> i = callId | _ \<Rightarrow> False)) out"

subsection \<open>A run used as example\<close>

text \<open>
  The server starts on an empty database. Two staff members register and log in; a
  visitor starts a conversation; then either the visitor leaves, or one staff member
  accepts the call and records a decision five seconds later. In \<open>s_respelled\<close> the
  staff member accepts with the call's id spelled differently; in \<open>s_demo\<close> the visitor
  starts the conversation while the database is not connected.
\<close>

definition ann :: register_data where
  "ann = \<lparr>r_name = ''Ann'', r_email = ''ann@x'', r_role = ''staff'',
          r_department = Some ''Sales''\<rparr>"

definition bob :: register_data where
  "bob = \<lparr>r_name = ''Bob'', r_email = ''bob@x'', r_role = ''staff'', r_department = None\<rparr>"

definition vic :: start_data where
  "vic = \<lparr>d_name = ''Vic'', d_email = ''vic@x'', d_purpose = Some ''Support''\<rparr>"

definition no_purpose :: start_data where
  "no_purpose = vic\<lparr>d_purpose := None\<rparr>"

definition empty_purpose :: start_data where
  "empty_purpose = vic\<lparr>d_purpose := Some []\<rparr>"

definition env1 :: env where
  "env1 = \<lparr>e_now = 20, e_ready = True, e_user_oid = 3, e_call_oid = 7, e_user_valid = True\<rparr>"

definition env_demo :: env where
  "env_demo = env1\<lparr>e_ready := False\<rparr>"

definition arrivals :: "nat event list" where
  "arrivals =
     [Register 1 True ann, Register 2 True bob,
      Connect ''v'', Connect ''a'', Connect ''b'',
      StaffLogin 10 ''a'' (Some ''ann@x'') True, StaffLogin 11 ''b'' (Some ''bob@x'') True]"

definition s_idle :: state where
  "s_idle = run arrivals (boot [] [] [])"

definition s_waiting :: state where
  "s_waiting = run (arrivals @ [StartConversation env1 ''v'' (Some vic)]) (boot [] [] [])"

definition s_demo :: state where
  "s_demo = run (arrivals @ [StartConversation env_demo ''v'' (Some vic)]) (boot [] [] [])"

definition s_rejected :: state where
  "s_rejected =
     run (arrivals @ [StartConversation env1 ''v'' (Some vic), Disconnect 25 ''v''])
       (boot [] [] [])"

definition s_progress :: state where
  "s_progress =
     run (arrivals @ [StartConversation env1 ''v'' (Some vic),
                      AcceptCall 30 ''a'' (Some \<lparr>a_callId = Some (ObjectId 7)\<rparr>)])
       (boot [] [] [])"

definition s_respelled :: state where
  "s_respelled =
     run (arrivals @ [StartConversation env1 ''v'' (Some vic),
                      AcceptCall 30 ''a'' (Some \<lparr>a_callId = Some (Respelled 7)\<rparr>)])
       (boot [] [] [])"

definition s_completed :: state where
  "s_completed =
     run (arrivals @ [StartConversation env1 ''v'' (Some vic),
                      AcceptCall 30 ''a'' (Some \<lparr>a_callId = Some (ObjectId 7)\<rparr>),
                      CallDecision 5030 ''a''
                        (Some \<lparr>c_callId = Some (ObjectId 7), c_decision = Some ''accepted'',
                               c_notes = Some ''ok''\<rparr>)])
       (boot [] [] [])"

text \<open>The visitor's call as it is stored in these states.\<close>

definition call7 :: call where
  "call7 = \<lparr>cid = 7, clientId = ObjectId 3, staffId = None, status = Waiting,
            callType = ''video'', purpose = ''Support'', description = None,
            startTime = None, endTime = None, duration = None,
            decision = Some ''pending'', notes_c = None, createdAt = 20, updatedAt = 20\<rparr>"

definition call7_rejected :: call where
  "call7_rejected = call7\<lparr>status := Rejected, updatedAt := 25\<rparr>"

definition call7_progress :: call where
  "call7_progress =
     call7\<lparr>staffId := Some (ObjectId 1), status := InProgress, startTime := Some 30,
           updatedAt := 30\<rparr>"

definition call7_completed :: call where
  "call7_completed =
     call7_progress\<lparr>status := Completed, endTime := Some 5030, decision := Some ''accepted'',
                    notes_c := Some ''ok'', duration := Some 5, updatedAt := 5030\<rparr>"

definition ann_online :: user where
  "ann_online = \<lparr>uid = ObjectId 1, uname = ''Ann'', email = ''ann@x'', role = ''staff'',
                 department = Some ''Sales'', isAvailable = True, lastActive = Some 10\<rparr>"

definition bob_online :: user where
  "bob_online = \<lparr>uid = ObjectId 2, uname = ''Bob'', email = ''bob@x'', role = ''staff'',
                 department = None, isAvailable = True, lastActive = Some 11\<rparr>"

text \<open>
  The state in which the first staff member's accept-call has saved the call and waits
  for the save to answer.
\<close>

definition s_saved :: state where
  "s_saved =
     (case accept_call_save 30 ''a'' ann_online call7 s_waiting :: nat out + state of
        Inr s1 \<Rightarrow> s1
      | Inl out \<Rightarrow> s_waiting)"

section \<open>Properties\<close>

subsection \<open>Stored documents\<close>

lemma find_update_doc:
  "find (\<lambda>c. cid c = n) cs = Some c \<Longrightarrow> cid (f c) = n \<Longrightarrow>
   find (\<lambda>c. cid c = n) (update_doc n f cs) = Some (f c)"
  by (induction cs) (auto simp: update_doc_def)

lemma stored_cid: "stored s n = Some c \<Longrightarrow> cid c = n"
  by (auto simp: stored_def find_Some_iff)

lemma findById_cast:
  "stored s n = Some c \<Longrightarrow> cast_oid i = Some n \<Longrightarrow> findById i (calls s) = Inr (Some c)"
  by (simp add: findById_def stored_def)

lemma findById_stored: "stored s n = Some c \<Longrightarrow> findById (ObjectId n) (calls s) = Inr (Some c)"
  by (simp add: findById_cast)

subsection \<open>The example run\<close>

lemma s_idle_facts:
  "sockets s_idle = [''v'', ''a'', ''b'']"
  "calls s_idle = []"
  "map_of (connectedUsers s_idle) ''v'' = None"
  by code_simp+

lemma s_waiting_facts:
  "stored s_waiting 7 = Some call7"
  "map_of (connectedUsers s_waiting) ''a'' = Some ann_online"
  "map_of (connectedUsers s_waiting) ''b'' = Some bob_online"
  "map_of (waitingCalls s_waiting) ''v'' = Some call7"
  "calls s_waiting = [call7]"
  by code_simp+

lemma s_rejected_facts:
  "stored s_rejected 7 = Some call7_rejected"
  "map_of (connectedUsers s_rejected) ''a'' = Some ann_online"
  by code_simp+

lemma s_progress_facts:
  "stored s_progress 7 = Some call7_progress"
  "calls s_progress = [call7_progress]"
  "map_of (connectedUsers s_progress) ''a'' = Some ann_online"
  "map_of (connectedUsers s_progress) ''b'' = Some bob_online"
  by code_simp+

lemma s_completed_facts:
  "stored s_completed 7 = Some call7_completed"
  "map_of (connectedUsers s_completed) ''a'' = Some ann_online"
  "map_of (connectedUsers s_completed) ''b'' = Some bob_online"
  by code_simp+

lemma example_users:
  "role ann_online = ''staff''" "is_oid (uid ann_online)" "uid ann_online = ObjectId 1"
  "role bob_online = ''staff''" "uid bob_online = ObjectId 2"
  by code_simp+

lemma example_calls:
  "status call7 = Waiting" "staffId call7 = None" "cid call7 = 7"
  "status call7_rejected = Rejected" "staffId call7_rejected = None"
  "status call7_progress = InProgress" "staffId call7_progress = Some (ObjectId 1)"
  "startTime call7_progress = Some 30"
  "status call7_completed = Completed" "staffId call7_completed = Some (ObjectId 1)"
  by code_simp+

subsection \<open>accept-call: the first acceptance wins\<close>

lemma accept_call_not_waiting:
  assumes "stored s n = Some c" and "status c \<noteq> Waiting" and "cast_oid i = Some n"
  shows "accept_call t k i s = (s, [])"
  using assms
  by (simp add: accept_call_def accept_call_query_def accept_call_resume_def
        accept_call_save_def findById_cast split: option.split)

lemma accept_call_waiting:
  fixes s :: state
  assumes c: "stored s n = Some c" "status c = Waiting"
      and u: "map_of (connectedUsers s) k = Some u" "role u = ''staff''" "is_oid (uid u)"
      and i: "cast_oid i = Some n"
  shows "accept_call t k i s =
    (let s1 = s\<lparr>calls := map (\<lambda>d. if cid d = n
                                   then d\<lparr>staffId := Some (uid u), status := InProgress,
                                          startTime := Some t, updatedAt := t\<rparr>
                                   else d) (calls s)\<rparr>;
         started = [(k, CallStarted i (clientId c) :: 'p msg)]
     in case find (\<lambda>(v, w). ObjectId (cid w) = i) (waitingCalls s) of
          None \<Rightarrow> (s1, started)
        | Some (v, w) \<Rightarrow>
            (s1\<lparr>waitingCalls := AList.delete v (waitingCalls s)\<rparr>,
             (if v \<in> set (sockets s) then [(v, CallAccepted (uname u) (department u))] else [])
             @ started))"
proof -
  have n: "cid c = n" using c(1) by (rule stored_cid)
  show ?thesis
    using c(2) u n findById_cast [OF c(1) i]
    by (simp add: accept_call_def accept_call_query_def accept_call_resume_def
          accept_call_save_def accept_call_finish_def update_doc_def io_to_def socket_emit_def
          Let_def split: option.split)
qed

lemma accept_all_not_waiting:
  assumes "stored s n = Some c" and "status c \<noteq> Waiting"
      and "\<forall>(t, k, i) \<in> set reqs. cast_oid i = Some n"
  shows "accept_all reqs s = (s, replicate (length reqs) [])"
  using assms by (induction reqs) (auto simp: accept_call_not_waiting)

text \<open>
  C1, as the server has it. Let the first of several accept-call events be sent by a
  connection registered as a staff user of the database, and let the events be handled
  one after the other, every handler finished before the next starts.

  If the events name a stored call in waiting (their \<open>callId\<close> casts to its id), exactly
  the first succeeds: the call is stored in-progress, bound to that staff user, with the
  time of the acceptance as start time; the sender receives \<open>call-started\<close>; and if
  \<open>waitingCalls\<close> has an entry whose call has the \<open>callId\<close> as the string of its id,
  the first such entry is removed and its socket, when connected, receives
  \<open>call-accepted\<close>. Nothing else changes. Every later accept-call for the call, whoever
  sends it, changes nothing in the state and emits nothing at all: no response of any
  kind reaches the sender, neither a claimed-call notice nor an error event.

  If the \<open>callId\<close> does not cast to an ObjectId, as the id of a call created in demo
  mode, the accept-call changes nothing and is answered by the error event
  \<open>Failed to accept call\<close>.
\<close>

theorem accept_call_first_wins:
  fixes s :: state
  assumes u: "map_of (connectedUsers s) ka = Some ua" "role ua = ''staff''" "is_oid (uid ua)"
  shows
    "(stored s n = Some c \<and> status c = Waiting \<and> cast_oid ia = Some n
        \<and> (\<forall>(t, k, i) \<in> set reqs. cast_oid i = Some n) \<longrightarrow>
      accept_all ((ta, ka, ia) # reqs) s =
        (let s1 = s\<lparr>calls := map (\<lambda>d. if cid d = n
                                       then d\<lparr>staffId := Some (uid ua), status := InProgress,
                                              startTime := Some ta, updatedAt := ta\<rparr>
                                       else d) (calls s)\<rparr>;
             started = [(ka, CallStarted ia (clientId c) :: 'p msg)]
         in case find (\<lambda>(v, w). ObjectId (cid w) = ia) (waitingCalls s) of
              None \<Rightarrow> (s1, started # replicate (length reqs) [])
            | Some (v, w) \<Rightarrow>
                (s1\<lparr>waitingCalls := AList.delete v (waitingCalls s)\<rparr>,
                 ((if v \<in> set (sockets s)
                   then [(v, CallAccepted (uname ua) (department ua))] else [])
                  @ started) # replicate (length reqs) [])))
     \<and> (cast_oid ia = None \<longrightarrow>
          accept_call ta ka ia s = (s, [(ka, ErrorEvent ''Failed to accept call'' None :: 'p msg)]))"
proof (intro conjI impI)
  assume h: "stored s n = Some c \<and> status c = Waiting \<and> cast_oid ia = Some n
             \<and> (\<forall>(t, k, i) \<in> set reqs. cast_oid i = Some n)"
  then have c: "stored s n = Some c" "status c = Waiting" and i: "cast_oid ia = Some n"
    and rest: "\<forall>(t, k, i) \<in> set reqs. cast_oid i = Some n"
    by auto
  let ?r = "accept_call ta ka ia s :: state \<times> 'p out"
  let ?c' = "c\<lparr>staffId := Some (uid ua), status := InProgress,
                startTime := Some ta, updatedAt := ta\<rparr>"
  note first = accept_call_waiting [OF c u i, of ta, where ?'p = 'p]
  have n: "cid c = n" using c(1) by (rule stored_cid)
  have cs: "calls (fst ?r) = update_doc n (\<lambda>d. d\<lparr>staffId := Some (uid ua),
               status := InProgress, startTime := Some ta, updatedAt := ta\<rparr>) (calls s)"
    by (subst first) (simp add: Let_def update_doc_def split: option.split)
  have st: "stored (fst ?r) n = Some ?c'"
    using c(1) n by (simp add: stored_def cs find_update_doc)
  have later: "accept_all reqs (fst ?r) = (fst ?r, replicate (length reqs) ([] :: 'p out))"
    by (rule accept_all_not_waiting [OF st _ rest]) simp
  have "accept_all ((ta, ka, ia) # reqs) s = (fst ?r, snd ?r # replicate (length reqs) [])"
    using later by (simp add: case_prod_unfold)
  then show "accept_all ((ta, ka, ia) # reqs) s =
        (let s1 = s\<lparr>calls := map (\<lambda>d. if cid d = n
                                       then d\<lparr>staffId := Some (uid ua), status := InProgress,
                                              startTime := Some ta, updatedAt := ta\<rparr>
                                       else d) (calls s)\<rparr>;
             started = [(ka, CallStarted ia (clientId c) :: 'p msg)]
         in case find (\<lambda>(v, w). ObjectId (cid w) = ia) (waitingCalls s) of
              None \<Rightarrow> (s1, started # replicate (length reqs) [])
            | Some (v, w) \<Rightarrow>
                (s1\<lparr>waitingCalls := AList.delete v (waitingCalls s)\<rparr>,
                 ((if v \<in> set (sockets s)
                   then [(v, CallAccepted (uname ua) (department ua))] else [])
                  @ started) # replicate (length reqs) []))"
    by (simp add: first Let_def split: option.split)
next
  assume "cast_oid ia = None"
  then show "accept_call ta ka ia s
               = (s, [(ka, ErrorEvent ''Failed to accept call'' None :: 'p msg)])"
    using u
    by (simp add: accept_call_def accept_call_query_def findById_def accept_failed_def
          socket_emit_def)
qed

theorem accept_call_first_wins_witness:
  "map_of (connectedUsers s_waiting) ''a'' = Some ann_online
   \<and> role ann_online = ''staff'' \<and> is_oid (uid ann_online)
   \<and> stored s_waiting 7 = Some call7 \<and> status call7 = Waiting
   \<and> cast_oid (ObjectId 7) = Some 7 \<and> cast_oid (Respelled 7) = Some 7
   \<and> accept_all [(30, ''a'', ObjectId 7), (31, ''b'', ObjectId 7), (32, ''x'', Respelled 7)]
        s_waiting
       = (s_progress,
          [[(''v'', CallAccepted ''Ann'' (Some ''Sales'')),
            (''a'', CallStarted (ObjectId 7) (ObjectId 3) :: nat msg)], [], []])
   \<and> map_of (connectedUsers s_demo) ''a'' = Some ann_online \<and> cast_oid (DemoCall 20) = None
   \<and> accept_call 30 ''a'' (DemoCall 20) s_demo
       = (s_demo, [(''a'', ErrorEvent ''Failed to accept call'' None :: nat msg)])"
proof -
  have d: "map_of (connectedUsers s_demo) ''a'' = Some ann_online" by code_simp
  have h: "stored s_waiting 7 = Some call7 \<and> status call7 = Waiting
           \<and> cast_oid (ObjectId 7) = Some 7
           \<and> (\<forall>(t, k, i) \<in> set [(31 :: int, ''b'', ObjectId 7), (32, ''x'', Respelled 7)].
                 cast_oid i = Some 7)"
    by (simp add: s_waiting_facts example_calls)
  have rhs:
    "(let s1 = s_waiting\<lparr>calls := map (\<lambda>d. if cid d = 7
                                       then d\<lparr>staffId := Some (uid ann_online),
                                              status := InProgress, startTime := Some 30,
                                              updatedAt := 30\<rparr>
                                       else d) (calls s_waiting)\<rparr>;
          started = [(''a'', CallStarted (ObjectId 7) (clientId call7) :: nat msg)]
      in case find (\<lambda>(v, w). ObjectId (cid w) = ObjectId 7) (waitingCalls s_waiting) of
           None \<Rightarrow>
             (s1, started # replicate (length [(31 :: int, ''b'', ObjectId 7),
                                               (32, ''x'', Respelled 7)]) [])
         | Some (v, w) \<Rightarrow>
             (s1\<lparr>waitingCalls := AList.delete v (waitingCalls s_waiting)\<rparr>,
              ((if v \<in> set (sockets s_waiting)
                then [(v, CallAccepted (uname ann_online) (department ann_online))] else [])
               @ started) # replicate (length [(31 :: int, ''b'', ObjectId 7),
                                               (32, ''x'', Respelled 7)]) []))
     = (s_progress,
        [[(''v'', CallAccepted ''Ann'' (Some ''Sales'')),
          (''a'', CallStarted (ObjectId 7) (ObjectId 3) :: nat msg)], [], []])"
    by code_simp
  note t = accept_call_first_wins [OF s_waiting_facts(2) example_users(1,2),
        where n = 7 and c = call7 and ia = "ObjectId 7" and ta = 30
          and reqs = "[(31, ''b'', ObjectId 7), (32, ''x'', Respelled 7)]" and ?'p = nat]
  have 1: "accept_all [(30, ''a'', ObjectId 7), (31, ''b'', ObjectId 7), (32, ''x'', Respelled 7)]
             s_waiting
           = (s_progress,
              [[(''v'', CallAccepted ''Ann'' (Some ''Sales'')),
                (''a'', CallStarted (ObjectId 7) (ObjectId 3) :: nat msg)], [], []])"
    by (rule trans [OF t [THEN conjunct1, THEN mp, OF h] rhs])
  have 2: "accept_call 30 ''a'' (DemoCall 20) s_demo
       = (s_demo, [(''a'', ErrorEvent ''Failed to accept call'' None :: nat msg)])"
    using accept_call_first_wins [OF d example_users(1,2),
        where ia = "DemoCall 20" and ta = 30 and ?'p = nat]
    by simp
  show ?thesis
    using 1 2 d s_waiting_facts(1,2) example_calls(1) example_users(1,2) by simp
qed

text \<open>
  The claim as the specification states it fails, in three ways. After \<open>''a''\<close> has
  accepted the visitor's call, the accept-call of the second registered staff
  connection \<open>''b''\<close> is answered by nothing, so the loser receives no CallClaimed.
  When the two handlers interleave, the queries of both answering before either saves,
  both hold the call in waiting and both staff members receive \<open>call-started\<close>, the
  call ending bound to the second. And for the call that demo mode created and
  broadcast, the accept-calls of both registered staff connections are answered by the
  error event, so nobody succeeds.
\<close>

theorem accept_loser_gets_nothing_counterexample:
  "registered_staff s_waiting ''a'' \<and> registered_staff s_waiting ''b''
   \<and> call_started ''a'' (ObjectId 7)
        (snd (accept_call 30 ''a'' (ObjectId 7) s_waiting :: state \<times> nat out))
   \<and> snd (accept_call 31 ''b'' (ObjectId 7)
             (fst (accept_call 30 ''a'' (ObjectId 7) s_waiting :: state \<times> nat out))
           :: state \<times> nat out) = []
   \<and> accept_call_query ''a'' (ObjectId 7) s_waiting = (([] :: nat out), Some (ann_online, call7))
   \<and> accept_call_query ''b'' (ObjectId 7) s_waiting = (([] :: nat out), Some (bob_online, call7))
   \<and> call_started ''a'' (ObjectId 7)
        (snd (accept_call_resume 30 ''a'' (ObjectId 7) ann_online call7 s_waiting
              :: state \<times> nat out))
   \<and> call_started ''b'' (ObjectId 7)
        (snd (accept_call_resume 31 ''b'' (ObjectId 7) bob_online call7
               (fst (accept_call_resume 30 ''a'' (ObjectId 7) ann_online call7 s_waiting
                     :: state \<times> nat out)) :: state \<times> nat out))
   \<and> map_option staffId
        (stored (fst (accept_call_resume 31 ''b'' (ObjectId 7) bob_online call7
                  (fst (accept_call_resume 30 ''a'' (ObjectId 7) ann_online call7 s_waiting
                        :: state \<times> nat out)) :: state \<times> nat out)) 7)
       = Some (Some (ObjectId 2))
   \<and> map fst (demoCalls s_demo) = [''v'']
   \<and> registered_staff s_demo ''a'' \<and> registered_staff s_demo ''b''
   \<and> accept_call 30 ''a'' (DemoCall 20) s_demo
       = (s_demo, [(''a'', ErrorEvent ''Failed to accept call'' None :: nat msg)])
   \<and> accept_call 31 ''b'' (DemoCall 20) s_demo
       = (s_demo, [(''b'', ErrorEvent ''Failed to accept call'' None :: nat msg)])"
  by code_simp

subsection \<open>Calls in a terminal state\<close>

text \<open>
  C2, as the server has it. For a stored call that is completed or rejected, an
  accept-call changes nothing in the state and emits nothing (no InvalidState is
  reported); a call-decision from a connection that is not registered as the staff user
  bound to the call changes nothing in the state either, and emits nothing, except that
  a registered staff connection gets the error event \<open>Failed to save decision\<close> when
  the call has no staff bound.
\<close>

theorem terminal_call_untouched:
  fixes s :: state
  assumes c: "stored s n = Some c" and t: "status c = Completed \<or> status c = Rejected"
  shows "accept_call t1 k (ObjectId n) s = (s, ([] :: 'p out))
         \<and> (\<not> bound_staff s k c \<longrightarrow>
              call_decision t2 k (ObjectId n) dec nts s
                = (s, if registered_staff s k \<and> staffId c = None
                      then decision_failed k else ([] :: 'p out)))"
proof -
  have "status c \<noteq> Waiting" using t by auto
  then have a: "accept_call t1 k (ObjectId n) s = (s, ([] :: 'p out))"
    using c by (simp add: accept_call_not_waiting)
  have "call_decision t2 k (ObjectId n) dec nts s
          = (s, if registered_staff s k \<and> staffId c = None
                then decision_failed k else ([] :: 'p out))"
    if "\<not> bound_staff s k c"
    using that findById_stored [OF c]
    by (auto simp: call_decision_def bound_staff_def registered_staff_def
             split: option.splits)
  with a show ?thesis by blast
qed

theorem terminal_call_untouched_witness:
  "stored s_completed 7 = Some call7_completed \<and> status call7_completed = Completed
   \<and> \<not> bound_staff s_completed ''b'' call7_completed
   \<and> accept_call 6000 ''b'' (ObjectId 7) s_completed = (s_completed, ([] :: nat out))
   \<and> call_decision 6001 ''b'' (ObjectId 7) (Some ''rejected'') None s_completed
       = (s_completed, ([] :: nat out))
   \<and> stored s_rejected 7 = Some call7_rejected \<and> status call7_rejected = Rejected
   \<and> \<not> bound_staff s_rejected ''a'' call7_rejected
   \<and> accept_call 6000 ''a'' (ObjectId 7) s_rejected = (s_rejected, ([] :: nat out))
   \<and> call_decision 6001 ''a'' (ObjectId 7) (Some ''accepted'') None s_rejected
       = (s_rejected, [(''a'', ErrorEvent ''Failed to save decision'' None :: nat msg)])"
proof -
  have nb: "\<not> bound_staff s_completed ''b'' call7_completed" by code_simp
  have na: "\<not> bound_staff s_rejected ''a'' call7_rejected" by code_simp
  have ra: "registered_staff s_rejected ''a''" by code_simp
  have rb: "registered_staff s_completed ''b''" by code_simp
  have "status call7_completed = Completed \<or> status call7_completed = Rejected"
    by (simp add: example_calls)
  from terminal_call_untouched [OF s_completed_facts(1) this,
      of 6000 "''b''" 6001 "Some ''rejected''" None, where ?'p = nat]
  have 1: "accept_call 6000 ''b'' (ObjectId 7) s_completed = (s_completed, ([] :: nat out))
           \<and> call_decision 6001 ''b'' (ObjectId 7) (Some ''rejected'') None s_completed
               = (s_completed, ([] :: nat out))"
    using nb rb by (simp add: example_calls)
  have "status call7_rejected = Completed \<or> status call7_rejected = Rejected"
    by (simp add: example_calls)
  from terminal_call_untouched [OF s_rejected_facts(1) this,
      of 6000 "''a''" 6001 "Some ''accepted''" None, where ?'p = nat]
  have 2: "accept_call 6000 ''a'' (ObjectId 7) s_rejected = (s_rejected, ([] :: nat out))
           \<and> call_decision 6001 ''a'' (ObjectId 7) (Some ''accepted'') None s_rejected
               = (s_rejected, [(''a'', ErrorEvent ''Failed to save decision'' None :: nat msg)])"
    using na ra by (simp add: example_calls decision_failed_def socket_emit_def)
  show ?thesis
    using 1 2 nb na s_completed_facts(1) s_rejected_facts(1) by (simp add: example_calls)
qed

text \<open>
  The claim as the specification states it fails: an accept-call for the completed call
  is answered by nothing, so no InvalidState is returned; and when the staff member who
  completed the call sends a second call-decision four seconds later, the completed
  call gets a new decision, new notes, a new end time and a new duration, and the
  sender is told \<open>decision-saved\<close>.
\<close>

theorem completed_call_rewritten_counterexample:
  "stored s_completed 7 = Some call7_completed \<and> status call7_completed = Completed
   \<and> snd (accept_call 6000 ''b'' (ObjectId 7) s_completed :: state \<times> nat out) = []
   \<and> stored (fst (call_decision 9030 ''a'' (ObjectId 7) (Some ''rejected'') (Some ''changed'')
                    s_completed :: state \<times> nat out)) 7
       = Some (call7_completed\<lparr>endTime := Some 9030, duration := Some 9,
                 decision := Some ''rejected'', notes_c := Some ''changed'', updatedAt := 9030\<rparr>)
   \<and> snd (call_decision 9030 ''a'' (ObjectId 7) (Some ''rejected'') (Some ''changed'')
             s_completed :: state \<times> nat out)
       = [(''v'', CallCompleted (Some ''rejected'') (Some ''changed'')),
          (''a'', DecisionSaved (ObjectId 7) (Some ''rejected''))]"
  by code_simp

subsection \<open>call-decision\<close>

text \<open>
  C5, as the server has it. Let the sender of a call-decision be registered with role
  staff, as user \<open>u\<close>, and let the call be stored. If the call is in-progress, bound to
  \<open>u\<close>, with a start time, and the decision is one the schema admits, the call is
  stored completed with the decision, the notes, the end time and the duration
  \<open>(end time - start time) div 1000\<close> (whole seconds), and the sender receives
  \<open>decision-saved\<close>. If the call is bound to another staff user, nothing changes and
  nothing is emitted (no NotOwner is reported). If the call has no staff bound, as every
  waiting call, nothing changes and the sender receives the error event
  \<open>Failed to save decision\<close>.
\<close>

theorem call_decision_outcomes:
  fixes s :: state
  assumes c: "stored s n = Some c"
      and u: "map_of (connectedUsers s) k = Some u" "role u = ''staff''"
  shows "(status c = InProgress \<and> staffId c = Some (uid u) \<and> startTime c = Some st
            \<and> decision_ok dec \<longrightarrow>
          stored (fst (call_decision t k (ObjectId n) dec nts s :: state \<times> 'p out)) n
            = Some (c\<lparr>status := Completed, endTime := Some t, decision := dec, notes_c := nts,
                      duration := Some ((t - st) div 1000), updatedAt := t\<rparr>)
          \<and> (k, DecisionSaved (ObjectId n) dec)
              \<in> set (snd (call_decision t k (ObjectId n) dec nts s :: state \<times> 'p out)))
       \<and> ((\<exists>owner. staffId c = Some owner \<and> owner \<noteq> uid u) \<longrightarrow>
            call_decision t k (ObjectId n) dec nts s = (s, ([] :: 'p out)))
       \<and> (staffId c = None \<longrightarrow>
            call_decision t k (ObjectId n) dec nts s = (s, (decision_failed k :: 'p out)))"
proof -
  have n: "cid c = n" using c by (rule stored_cid)
  note fb = findById_stored [OF c]
  have "stored (fst (call_decision t k (ObjectId n) dec nts s :: state \<times> 'p out)) n
            = Some (c\<lparr>status := Completed, endTime := Some t, decision := dec, notes_c := nts,
                      duration := Some ((t - st) div 1000), updatedAt := t\<rparr>)
          \<and> (k, DecisionSaved (ObjectId n) dec)
              \<in> set (snd (call_decision t k (ObjectId n) dec nts s :: state \<times> 'p out))"
    if "staffId c = Some (uid u)" "startTime c = Some st" "decision_ok dec"
    using that u fb n c
    by (simp add: call_decision_def Let_def socket_emit_def stored_def find_update_doc)
  moreover have "call_decision t k (ObjectId n) dec nts s = (s, ([] :: 'p out))"
    if "\<exists>owner. staffId c = Some owner \<and> owner \<noteq> uid u"
    using that u fb by (auto simp: call_decision_def)
  moreover have "call_decision t k (ObjectId n) dec nts s = (s, (decision_failed k :: 'p out))"
    if "staffId c = None"
    using that u fb by (simp add: call_decision_def)
  ultimately show ?thesis by blast
qed

theorem call_decision_outcomes_witness:
  "stored s_progress 7 = Some call7_progress
   \<and> map_of (connectedUsers s_progress) ''a'' = Some ann_online
   \<and> map_of (connectedUsers s_progress) ''b'' = Some bob_online
   \<and> role ann_online = ''staff'' \<and> role bob_online = ''staff''
   \<and> status call7_progress = InProgress \<and> staffId call7_progress = Some (uid ann_online)
   \<and> startTime call7_progress = Some 30 \<and> decision_ok (Some ''accepted'')
   \<and> stored (fst (call_decision 5030 ''a'' (ObjectId 7) (Some ''accepted'') (Some ''ok'')
                    s_progress :: state \<times> nat out)) 7 = Some call7_completed
   \<and> (''a'', DecisionSaved (ObjectId 7) (Some ''accepted''))
        \<in> set (snd (call_decision 5030 ''a'' (ObjectId 7) (Some ''accepted'') (Some ''ok'')
                      s_progress :: state \<times> nat out))
   \<and> call_decision 5030 ''b'' (ObjectId 7) (Some ''accepted'') (Some ''ok'') s_progress
       = (s_progress, ([] :: nat out))
   \<and> stored s_waiting 7 = Some call7
   \<and> map_of (connectedUsers s_waiting) ''a'' = Some ann_online \<and> staffId call7 = None
   \<and> call_decision 5030 ''a'' (ObjectId 7) (Some ''accepted'') (Some ''ok'') s_waiting
       = (s_waiting, [(''a'', ErrorEvent ''Failed to save decision'' None :: nat msg)])"
proof -
  have ok: "decision_ok (Some ''accepted'')" by code_simp
  have own: "staffId call7_progress = Some (uid ann_online)"
    by (simp add: example_calls example_users)
  have other: "\<exists>owner. staffId call7_progress = Some owner \<and> owner \<noteq> uid bob_online"
    by (simp add: example_calls example_users)
  have 1: "stored (fst (call_decision 5030 ''a'' (ObjectId 7) (Some ''accepted'') (Some ''ok'')
                    s_progress :: state \<times> nat out)) 7 = Some call7_completed
      \<and> (''a'', DecisionSaved (ObjectId 7) (Some ''accepted''))
        \<in> set (snd (call_decision 5030 ''a'' (ObjectId 7) (Some ''accepted'') (Some ''ok'')
                      s_progress :: state \<times> nat out))"
    using call_decision_outcomes [OF s_progress_facts(1,3) example_users(1),
        of 30 "Some ''accepted''" 5030 "Some ''ok''", where ?'p = nat] ok own
    by (simp add: example_calls call7_completed_def)
  have 2: "call_decision 5030 ''b'' (ObjectId 7) (Some ''accepted'') (Some ''ok'') s_progress
       = (s_progress, ([] :: nat out))"
    using call_decision_outcomes [OF s_progress_facts(1,4) example_users(4),
        of 30 "Some ''accepted''" 5030 "Some ''ok''", where ?'p = nat] other
    by blast
  have 3: "call_decision 5030 ''a'' (ObjectId 7) (Some ''accepted'') (Some ''ok'') s_waiting
       = (s_waiting, [(''a'', ErrorEvent ''Failed to save decision'' None :: nat msg)])"
    using call_decision_outcomes [OF s_waiting_facts(1,2) example_users(1),
        of 30 "Some ''accepted''" 5030 "Some ''ok''", where ?'p = nat]
    by (simp add: example_calls decision_failed_def socket_emit_def)
  show ?thesis
    using 1 2 3 ok own s_progress_facts s_waiting_facts
    by (simp add: example_calls example_users)
qed

text \<open>
  The claim as the specification states it fails twice. The registered staff connection
  \<open>''b''\<close>, which does not own the in-progress call, gets no response at all to its
  call-decision, so no NotOwner; and the owner's call-decision on the call that is
  already completed, hence not in-progress, is carried out and answered by
  \<open>decision-saved\<close>.
\<close>

theorem call_decision_no_error_counterexample:
  "registered_staff s_progress ''b'' \<and> \<not> bound_staff s_progress ''b'' call7_progress
   \<and> call_decision 40 ''b'' (ObjectId 7) (Some ''accepted'') None s_progress
       = (s_progress, ([] :: nat out))
   \<and> map_option status (stored s_completed 7) = Some Completed
   \<and> (''a'', DecisionSaved (ObjectId 7) (Some ''rejected'') :: nat msg)
        \<in> set (snd (call_decision 9030 ''a'' (ObjectId 7) (Some ''rejected'') None s_completed))"
  by code_simp

subsection \<open>disconnect\<close>

text \<open>
  C3, as the server has it. The disconnect handler emits nothing, so nobody is notified.
  If \<open>waitingCalls\<close> has an entry for the disconnecting socket, every stored call with
  the id of that entry's call gets the status rejected and a new \<open>updatedAt\<close>,
  whatever its status was, and no other stored call changes; afterwards
  \<open>waitingCalls\<close> has no entry for the socket. If \<open>waitingCalls\<close> has no entry for
  the socket, no stored call changes.
\<close>

theorem disconnect_rejects_waiting_entry_only:
  "snd (disconnect t k s :: state \<times> 'p out) = []
   \<and> calls (fst (disconnect t k s :: state \<times> 'p out))
       = (case map_of (waitingCalls s) k of
            None \<Rightarrow> calls s
          | Some w \<Rightarrow> map (\<lambda>d. if cid d = cid w then d\<lparr>status := Rejected, updatedAt := t\<rparr> else d)
                        (calls s))
   \<and> map_of (waitingCalls (fst (disconnect t k s :: state \<times> 'p out))) k = None"
  by (auto simp: disconnect_def disconnect_user_def disconnect_call_def disconnect_finish_def
        Let_def update_doc_def delete_conv' split: option.splits)

theorem disconnect_rejects_waiting_entry_only_witness:
  "map_of (waitingCalls s_waiting) ''v'' = Some call7
   \<and> snd (disconnect 25 ''v'' s_waiting :: state \<times> nat out) = []
   \<and> calls (fst (disconnect 25 ''v'' s_waiting :: state \<times> nat out)) = [call7_rejected]
   \<and> map_of (waitingCalls (fst (disconnect 25 ''v'' s_waiting :: state \<times> nat out))) ''v'' = None
   \<and> map_of (waitingCalls s_waiting) ''a'' = None
   \<and> calls (fst (disconnect 25 ''a'' s_waiting :: state \<times> nat out)) = [call7]"
proof -
  have a: "map_of (waitingCalls s_waiting) ''a'' = None" by code_simp
  show ?thesis
    using disconnect_rejects_waiting_entry_only [of 25 "''v''" s_waiting, where ?'p = nat]
      disconnect_rejects_waiting_entry_only [of 25 "''a''" s_waiting, where ?'p = nat]
      a s_waiting_facts(4,5)
    by (simp add: example_calls call7_rejected_def)
qed

text \<open>
  The claim as the specification states it fails: with the call in-progress, the
  visitor's socket disconnects, and so does the socket of the staff member bound to the
  call; each time the call stays in-progress and no message is emitted. And the visitor
  of the waiting call that demo mode created has no entry in \<open>waitingCalls\<close>: when
  its socket disconnects, the call stays in waiting.
\<close>

theorem disconnect_in_progress_counterexample:
  "map (dc_status \<circ> snd) (demoCalls s_demo) = [Waiting]
   \<and> map (dc_status \<circ> snd) (demoCalls (fst (step (Disconnect 40 ''v'' :: nat event) s_demo)))
       = [Waiting]
   \<and> map status (calls s_progress) = [InProgress]
   \<and> map status (calls (fst (step (Disconnect 40 ''v'' :: nat event) s_progress))) = [InProgress]
   \<and> snd (step (Disconnect 40 ''v'' :: nat event) s_progress) = []
   \<and> map status (calls (fst (step (Disconnect 40 ''a'' :: nat event) s_progress))) = [InProgress]
   \<and> snd (step (Disconnect 40 ''a'' :: nat event) s_progress) = []"
  by code_simp

subsection \<open>start-conversation\<close>

text \<open>
  C6. The visitor's socket \<open>''v''\<close>, not registered at all when it sends
  start-conversation and registered with role client afterwards, receives the
  \<open>new-call-request\<close> of its own call: the broadcast is \<open>io.emit\<close>, which reaches
  every connected socket and not the staff connections only.
\<close>

theorem new_call_request_reaches_visitor:
  "\<not> registered_staff s_idle ''v''
   \<and> \<not> registered_staff (fst (step (StartConversation env1 ''v'' (Some vic) :: nat event) s_idle)) ''v''
   \<and> snd (step (StartConversation env1 ''v'' (Some vic) :: nat event) s_idle)
       = [(''v'', NewCallRequest (ObjectId 7) ''Vic'' (Some ''Support'') 20),
          (''a'', NewCallRequest (ObjectId 7) ''Vic'' (Some ''Support'') 20),
          (''b'', NewCallRequest (ObjectId 7) ''Vic'' (Some ''Support'') 20),
          (''v'', ConversationStarted ''v'' (ObjectId 7) ''Vic'' (Some ''Support''))]"
  by code_simp

text \<open>
  C7, as the server has it. When the database is connected, a start-conversation whose
  purpose is missing or empty fails: the sender receives the error event
  \<open>Failed to start conversation: ...\<close> and nothing else is emitted, so no
  \<open>new-call-request\<close>; no call is stored, and neither \<open>waitingCalls\<close> nor
  \<open>connectedUsers\<close> nor \<open>demoCalls\<close> gets an entry.
\<close>

theorem start_without_purpose_fails:
  fixes s :: state
  assumes "e_ready e" and "d_purpose d = None \<or> d_purpose d = Some []"
  shows "(\<exists>err. snd (start_conversation e k d s :: state \<times> 'p out)
                 = [(k, ErrorEvent ''Failed to start conversation: '' (Some err))])
       \<and> calls (fst (start_conversation e k d s :: state \<times> 'p out)) = calls s
       \<and> waitingCalls (fst (start_conversation e k d s :: state \<times> 'p out)) = waitingCalls s
       \<and> connectedUsers (fst (start_conversation e k d s :: state \<times> 'p out)) = connectedUsers s
       \<and> demoCalls (fst (start_conversation e k d s :: state \<times> 'p out)) = demoCalls s"
  using assms
  by (auto simp: start_conversation_def start_mongo_def new_call_def start_failed_def
        socket_emit_def Let_def split: sum.splits prod.splits)

theorem start_without_purpose_fails_witness:
  "e_ready env1 \<and> d_purpose no_purpose = None \<and> d_purpose empty_purpose = Some []
   \<and> snd (start_conversation env1 ''v'' no_purpose s_idle :: state \<times> nat out)
       = [(''v'', ErrorEvent ''Failed to start conversation: ''
                   (Some (ValidationFailed ''purpose'')))]
   \<and> calls (fst (start_conversation env1 ''v'' no_purpose s_idle :: state \<times> nat out)) = []
   \<and> (\<exists>err. snd (start_conversation env1 ''v'' empty_purpose s_idle :: state \<times> nat out)
               = [(''v'', ErrorEvent ''Failed to start conversation: '' (Some err))])
   \<and> calls (fst (start_conversation env1 ''v'' empty_purpose s_idle :: state \<times> nat out)) = []"
proof -
  have r: "e_ready env1" by code_simp
  have n: "d_purpose no_purpose = None" by code_simp
  have e: "d_purpose empty_purpose = Some []" by code_simp
  have out: "snd (start_conversation env1 ''v'' no_purpose s_idle :: state \<times> nat out)
       = [(''v'', ErrorEvent ''Failed to start conversation: ''
                   (Some (ValidationFailed ''purpose'')))]"
    by code_simp
  have n': "d_purpose no_purpose = None \<or> d_purpose no_purpose = Some []" using n by simp
  have e': "d_purpose empty_purpose = None \<or> d_purpose empty_purpose = Some []" using e by simp
  show ?thesis
    using start_without_purpose_fails [OF r n', of "''v''" s_idle, where ?'p = nat]
      start_without_purpose_fails [OF r e', of "''v''" s_idle, where ?'p = nat]
      r n e out s_idle_facts(2)
    by simp
qed

text \<open>
  The claim as the specification states it fails: in demo mode, with the database not
  connected, the same request without a purpose creates a call in \<open>demoCalls\<close> and the
  \<open>new-call-request\<close> is broadcast.
\<close>

theorem start_without_purpose_demo_counterexample:
  "\<not> e_ready env_demo \<and> d_purpose no_purpose = None
   \<and> map fst (demoCalls (fst (start_conversation env_demo ''v'' no_purpose s_idle
                                 :: state \<times> nat out))) = [''v'']
   \<and> snd (start_conversation env_demo ''v'' no_purpose s_idle :: state \<times> nat out)
       = [(''v'', NewCallRequest (DemoCall 20) ''Vic'' None 20),
          (''a'', NewCallRequest (DemoCall 20) ''Vic'' None 20),
          (''b'', NewCallRequest (DemoCall 20) ''Vic'' None 20),
          (''v'', ConversationStarted ''v'' (DemoCall 20) ''Vic'' None)]"
  by code_simp

subsection \<open>accept-call from a connection that is not staff\<close>

text \<open>
  C10, as the server has it. An \<open>accept-call\<close> event from a connection that is not
  registered, or whose registered role is not \<open>staff\<close>, changes nothing in the state.
  If it carries a payload, with or without a \<open>callId\<close> and whatever the \<open>callId\<close> is,
  nothing is emitted to any connection. If it carries no payload, the handler fails
  before its staff guard and the sender receives the error event
  \<open>Failed to accept call\<close>; nothing else is emitted.
\<close>

theorem accept_call_not_staff_silent:
  assumes "\<not> registered_staff s k"
  shows "on_accept_call t k data s =
           (s, case data of
                 None \<Rightarrow> [(k, ErrorEvent ''Failed to accept call'' None :: 'p msg)]
               | Some d \<Rightarrow> [])"
  using assms
  by (auto simp: on_accept_call_def accept_call_def accept_call_query_def registered_staff_def
        accept_failed_def socket_emit_def split: option.splits)

theorem accept_call_not_staff_silent_witness:
  "\<not> registered_staff s_waiting ''v'' \<and> \<not> registered_staff s_waiting ''x''
   \<and> on_accept_call 30 ''v'' (Some \<lparr>a_callId = Some (ObjectId 7)\<rparr>) s_waiting
       = (s_waiting, ([] :: nat out))
   \<and> on_accept_call 30 ''x'' (Some \<lparr>a_callId = None\<rparr>) s_waiting = (s_waiting, ([] :: nat out))
   \<and> on_accept_call 30 ''x'' None s_waiting
       = (s_waiting, [(''x'', ErrorEvent ''Failed to accept call'' None :: nat msg)])"
proof -
  have v: "\<not> registered_staff s_waiting ''v''" by code_simp
  have x: "\<not> registered_staff s_waiting ''x''" by code_simp
  show ?thesis
    using v x
      accept_call_not_staff_silent [OF v, of 30 "Some \<lparr>a_callId = Some (ObjectId 7)\<rparr>",
        where ?'p = nat]
      accept_call_not_staff_silent [OF x, of 30 "Some \<lparr>a_callId = None\<rparr>", where ?'p = nat]
      accept_call_not_staff_silent [OF x, of 30 None, where ?'p = nat]
    by simp
qed

text \<open>
  The claim as the specification states it fails: an accept-call without payload, from
  the unregistered socket \<open>''x''\<close> and from the visitor's socket \<open>''v''\<close>, registered
  with role client, is answered by the error event.
\<close>

theorem accept_call_without_payload_counterexample:
  "\<not> registered_staff s_waiting ''x'' \<and> \<not> registered_staff s_waiting ''v''
   \<and> snd (on_accept_call 30 ''x'' None s_waiting)
       = [(''x'', ErrorEvent ''Failed to accept call'' None :: nat msg)]
   \<and> snd (step (AcceptCall 30 ''v'' None) s_waiting)
       = [(''v'', ErrorEvent ''Failed to accept call'' None :: nat msg)]"
  by code_simp

subsection \<open>Signalling\<close>

text \<open>
  C4, as the server has it. A signalling message (offer, answer or ice-candidate) with a
  target is forwarded to the target, payload intact and the sender's socket id attached
  as \<open>from\<close>, if and only if the target is a connected socket; otherwise nothing is
  forwarded. Neither the sender's registration nor any call is consulted, and the state
  does not change.
\<close>

theorem signal_forwarded_iff_target_connected:
  "on_signal kd k target p s =
     (s, if target \<in> set (sockets s) then [(target, signal_msg kd p k)] else [])"
  by (cases kd) (simp_all add: on_offer_def on_answer_def on_ice_candidate_def io_to_def)

theorem signal_forwarded_iff_target_connected_witness:
  "on_signal KOffer ''v'' ''a'' (5 :: nat) s_idle = (s_idle, [(''a'', Offer 5 ''v'')])
   \<and> on_signal KAnswer ''v'' ''gone'' (5 :: nat) s_idle = (s_idle, [])"
proof -
  have a: "''a'' \<in> set (sockets s_idle)" by code_simp
  have g: "''gone'' \<notin> set (sockets s_idle)" by code_simp
  show ?thesis
    using a g signal_forwarded_iff_target_connected [of KOffer "''v''" "''a''" "5 :: nat" s_idle]
      signal_forwarded_iff_target_connected [of KAnswer "''v''" "''gone''" "5 :: nat" s_idle]
    by simp
qed

text \<open>
  The claim as the specification states it fails: in \<open>s_idle\<close> no call exists at all,
  the visitor's socket is not registered, and its offer still reaches the staff socket.
\<close>

theorem signal_without_call_counterexample:
  "calls s_idle = [] \<and> map_of (connectedUsers s_idle) ''v'' = None
   \<and> snd (on_signal KOffer ''v'' ''a'' (5 :: nat) s_idle) = [(''a'', Offer 5 ''v'')]"
  by code_simp

subsection \<open>The waiting-calls query\<close>


subsection \<open>Disconnect after an acceptance\<close>

text \<open>
  C9. The staff member accepts the visitor's call with the call's id in another
  spelling. The query finds the call, which is stored in-progress, and the staff member
  receives \<open>call-started\<close>; the search of \<open>waitingCalls\<close> compares strings, finds no
  entry and deletes none, and the visitor receives nothing. When the visitor's socket
  disconnects afterwards, the handler finds the entry and stores the in-progress call
  as rejected.
\<close>

theorem respelled_accept_keeps_entry:
  "snd (step (AcceptCall 30 ''a'' (Some \<lparr>a_callId = Some (Respelled 7)\<rparr>)) s_waiting)
     = [(''a'', CallStarted (Respelled 7) (ObjectId 3) :: nat msg)]
   \<and> stored s_respelled 7 = Some call7_progress
   \<and> map_of (waitingCalls s_respelled) ''v'' = Some call7
   \<and> stored (fst (step (Disconnect 40 ''v'' :: nat event) s_respelled)) 7
       = Some (call7_progress\<lparr>status := Rejected, updatedAt := 40\<rparr>)"
  by code_simp

text \<open>
  The same happens with the id in its own spelling when the visitor's socket
  disconnects while the accepting handler waits for its save: in \<open>s_saved\<close> the call is
  stored in-progress and the entry is still there, the disconnect stores the call as
  rejected, and the accepting handler goes on to tell the staff member \<open>call-started\<close>.
\<close>

lemma disconnect_during_accept:
  "accept_call_query ''a'' (ObjectId 7) s_waiting = (([] :: nat out), Some (ann_online, call7))
   \<and> accept_call_save 30 ''a'' ann_online call7 s_waiting = (Inr s_saved :: nat out + state)
   \<and> stored s_saved 7 = Some call7_progress
   \<and> stored (fst (step (Disconnect 40 ''v'' :: nat event) s_saved)) 7
       = Some (call7_progress\<lparr>status := Rejected, updatedAt := 40\<rparr>)
   \<and> accept_call_finish ''a'' (ObjectId 7) ann_online call7
        (fst (step (Disconnect 40 ''v'' :: nat event) s_saved))
       = (fst (step (Disconnect 40 ''v'' :: nat event) s_saved),
          [(''a'', CallStarted (ObjectId 7) (ObjectId 3) :: nat msg)])"
  by code_simp

end
